theory Spec2Isabelle
  imports Main
begin

section \<open>Strings as the Go code reads them\<close>

text \<open>
  A Go string is a sequence of bytes; it is modelled as a \<open>string\<close> (a list of
  \<open>char\<close>, each a byte). The three functions of package \<open>strings\<close> that
  \<open>github.go\<close> calls are always called with a separator of one byte
  (\<open>","\<close> and \<open>"/"\<close>) or with a literal suffix.
\<close>

definition Contains :: "string \<Rightarrow> char \<Rightarrow> bool" where
  "Contains s sep = (sep \<in> set s)"

text \<open>
  \<open>strings.Split(s, sep)\<close>: the substrings between the separators, one more than there
  are separators; the empty string gives one empty substring. A byte that is not the
  separator joins the first substring of the rest (\<open>joinFirst\<close>; the rest is never
  without a first substring).
\<close>

fun joinFirst :: "char \<Rightarrow> string list \<Rightarrow> string list" where
  "joinFirst x (y # ys) = (x # y) # ys"
| "joinFirst x [] = [[x]]"

fun Split :: "string \<Rightarrow> char \<Rightarrow> string list" where
  "Split [] sep = [[]]"
| "Split (x # xs) sep =
     (if x = sep then [] # Split xs sep else joinFirst x (Split xs sep))"

definition HasSuffix :: "string \<Rightarrow> string \<Rightarrow> bool" where
  "HasSuffix s suf = (length suf \<le> length s \<and> drop (length s - length suf) s = suf)"

definition apostrophe :: string where
  "apostrophe = [CHR 0x27]"

section \<open>Library functions the file calls\<close>

text \<open>
  Modelled from the spec: \<open>validation.IsDNS1123Subdomain\<close> of
  \<open>k8s.io/apimachinery\<close> is not part of the repository. The spec gives its rule:
  lowercase alphanumerics and hyphens, labels separated by dots, no leading or trailing
  hyphen in a label, at most 253 characters in total. The four definitions below follow
  that rule.
\<close>

text \<open>Modelled from the spec: a lowercase alphanumeric, the characters a label is made of
  besides the hyphen.\<close>

definition isLowerAlnum :: "char \<Rightarrow> bool" where
  "isLowerAlnum c = (c \<in> set ''abcdefghijklmnopqrstuvwxyz0123456789'')"

text \<open>Modelled from the spec: a label is not empty, is made of lowercase alphanumerics
  and hyphens, and neither starts nor ends with a hyphen.\<close>

definition dns1123Label :: "string \<Rightarrow> bool" where
  "dns1123Label l =
     (l \<noteq> [] \<and> isLowerAlnum (hd l) \<and> isLowerAlnum (last l) \<and>
      list_all (\<lambda>c. isLowerAlnum c \<or> c = CHR ''-'') l)"

text \<open>Modelled from the spec: the two faults the function reports, the length and the
  syntax.\<close>

datatype dns_fault = MaxLenError | RegexError

text \<open>Modelled from the spec: the list of the faults of a hostname, empty when it has at
  most 253 characters and every dot-separated part is a label. \<open>isValidHostname\<close>
  tests the list for emptiness.\<close>

definition IsDNS1123Subdomain :: "string \<Rightarrow> dns_fault list" where
  "IsDNS1123Subdomain v =
     (if 253 < length v then [MaxLenError] else []) @
     (if list_all dns1123Label (Split v CHR ''.'') then [] else [RegexError])"

text \<open>
  The two remaining library functions are parameters of the model, since neither the
  repository nor the spec says what they compute: \<open>ParseIPSloppy s\<close> holds when
  \<open>netutils.ParseIPSloppy(s)\<close> is not nil, and \<open>url_Parse s\<close> holds when
  \<open>url.Parse(s)\<close> returns no error.
\<close>

record lib =
  ParseIPSloppy :: "string \<Rightarrow> bool"
  url_Parse :: "string \<Rightarrow> bool"

section \<open>Data\<close>

text \<open>The flag-bound variables \<open>args\<close> that \<open>buildGithubIdp\<close> reads.\<close>

record args =
  clientID :: string
  clientSecret :: string
  githubOrganizations :: string
  githubTeams :: string
  githubHostname :: string
  mappingMethod :: string

text \<open>
  What the function reads of the cluster: \<open>cluster.Name()\<close>,
  \<open>cluster.Console().URL()\<close> and the result of \<open>c.GetClusterOauthURL(cluster)\<close>.
\<close>

record cluster =
  clusterName :: string
  consoleURL :: string
  oauthURL :: string

text \<open>
  The three \<open>survey.Input\<close> prompts. The operator is a function from the prompt to
  the outcome of \<open>survey.AskOne\<close>: \<open>None\<close> when it returns an error (the prompt
  was aborted), \<open>Some s\<close> when it stores the line \<open>s\<close>, which may be empty. Each
  prompt is issued at most once in a run.
\<close>

datatype prompt = OrgsOrTeamsPrompt | ClientIDPrompt | ClientSecretPrompt

type_synonym operator = "prompt \<Rightarrow> string option"

text \<open>
  The registration URL: the string handed to \<open>url.Parse\<close> and the parameters added to
  \<open>urlParams\<close>, in the order of the calls to \<open>Add\<close>.
\<close>

record registerURL =
  rawurl :: string
  urlParams :: "(string \<times> string) list"

text \<open>What a run writes to the terminal, in order: the printed lines and the prompts.\<close>

datatype event =
    Println string
  | PrintlnURL registerURL
  | Ask prompt

text \<open>
  The errors, one constructor for each kind the spec names; the prompt and the hostname
  fault tell the return statements of one kind apart (lines 46, 61, 85, 107, 117, 129
  and 136). \<open>errorText\<close> is the text the source builds for each: for \<open>URLError\<close> the
  message of \<open>url.Parse\<close> follows it, and for the two hostname errors it is the result
  of \<open>fmt.Sprintf\<close>, which the source passes on to \<open>fmt.Errorf\<close>.
\<close>

datatype hostname_fault = NotDNSOrIP | GithubDomain

datatype error =
    ConflictError
  | InputError prompt
  | URLError
  | ValidationError hostname_fault string

fun errorText :: "error \<Rightarrow> string" where
  "errorText ConflictError =
     ''GitHub IDP only allows either organizations or teams, but not both''"
| "errorText (InputError OrgsOrTeamsPrompt) = ''Expected a GitHub organization or team name''"
| "errorText (InputError ClientIDPrompt) = ''Expected a GitHub application Client ID''"
| "errorText (InputError ClientSecretPrompt) = ''Expected a GitHub application Client Secret''"
| "errorText URLError = ''Error parsing URL: ''"
| "errorText (ValidationError NotDNSOrIP h) =
     apostrophe @ h @ apostrophe @ '' hostname must be a valid DNS subdomain or IP address''"
| "errorText (ValidationError GithubDomain h) =
     apostrophe @ h @ apostrophe @ '' hostname cannot be equal to [*.]github.com''"

text \<open>
  The builders of the SDK hold each attribute with a flag that says whether it was set;
  an attribute is \<open>None\<close> until its setter is called. Only the attributes this file
  sets are kept.
\<close>

record GithubIdentityProviderBuilder =
  ClientID :: "string option"
  ClientSecret :: "string option"
  Hostname :: "string option"
  Organizations :: "string list option"
  Teams :: "string list option"

record IdentityProviderBuilder =
  Type :: "string option"
  Name :: "string option"
  MappingMethod :: "string option"
  Github :: "GithubIdentityProviderBuilder option"

definition NewGithubIdentityProvider :: GithubIdentityProviderBuilder where
  "NewGithubIdentityProvider =
     \<lparr>ClientID = None, ClientSecret = None, Hostname = None,
      Organizations = None, Teams = None\<rparr>"

text \<open>The zero value of the named result \<open>idpBuilder\<close>.\<close>

definition zeroBuilder :: IdentityProviderBuilder where
  "zeroBuilder = \<lparr>Type = None, Name = None, MappingMethod = None, Github = None\<rparr>"

text \<open>What a run returns (\<open>idpBuilder\<close>, \<open>err\<close>) and what it wrote.\<close>

record outcome =
  idpBuilder :: IdentityProviderBuilder
  err :: "error option"
  out :: "event list"

section \<open>The code\<close>

definition isValidHostname :: "lib \<Rightarrow> string \<Rightarrow> bool" where
  "isValidHostname L hostname =
     (length (IsDNS1123Subdomain hostname) = 0 \<or> ParseIPSloppy L hostname)"

text \<open>Line 49, over the local variables.\<close>

definition isInteractive :: "string \<Rightarrow> string \<Rightarrow> string \<Rightarrow> string \<Rightarrow> bool" where
  "isInteractive cid csec organizations teams =
     (cid = [] \<or> csec = [] \<or> (organizations = [] \<and> teams = []))"

text \<open>
  Lines 54 to 70: the combined prompt, issued only when both variables are empty, and
  the classification of \<open>teamsOrOrgs\<close>, which runs whether or not the prompt was
  issued. The result is the pair (\<open>organizations\<close>, \<open>teams\<close>).
\<close>

definition resolveOrgsOrTeams ::
  "operator \<Rightarrow> string \<Rightarrow> string \<Rightarrow> (error + string \<times> string) \<times> event list" where
  "resolveOrgsOrTeams ask organizations teams =
     (case (if organizations = [] \<and> teams = []
            then (ask OrgsOrTeamsPrompt, [Ask OrgsOrTeamsPrompt])
            else (Some [], [])) of
        (None, evs) \<Rightarrow> (Inl (InputError OrgsOrTeamsPrompt), evs)
      | (Some teamsOrOrgs, evs) \<Rightarrow>
          (if Contains teamsOrOrgs CHR ''/''
           then (Inr (organizations, teamsOrOrgs), evs)
           else (Inr (teamsOrOrgs, teams), evs)))"

text \<open>Lines 73 to 81.\<close>

definition registerURLBase :: "string \<Rightarrow> string \<Rightarrow> string" where
  "registerURLBase organizations teams =
     (if organizations \<noteq> [] \<and> \<not> Contains organizations CHR '',''
      then ''https://github.com/organizations/'' @ organizations @
           ''/settings/applications/new''
      else if teams \<noteq> [] \<and> \<not> Contains teams CHR '',''
      then ''https://github.com/organizations/'' @ hd (Split teams CHR ''/'') @
           ''/settings/applications/new''
      else ''https://github.com/settings/applications/new'')"

text \<open>Lines 101 to 119: a credential is asked for only when it is empty.\<close>

definition askIfEmpty :: "operator \<Rightarrow> prompt \<Rightarrow> string \<Rightarrow> (error + string) \<times> event list" where
  "askIfEmpty ask p current =
     (if current = [] then
        (case ask p of
           None \<Rightarrow> (Inl (InputError p), [Ask p])
         | Some answer \<Rightarrow> (Inr answer, [Ask p]))
      else (Inr current, []))"

text \<open>Line 52, the first line an interactive run prints.\<close>

definition registerFirst :: string where
  "registerFirst =
     ''To use GitHub as an identity provider, you must first register the application:''"

text \<open>
  Lines 51 to 120, the body of \<open>if isInteractive\<close>. The result is the tuple of the
  local variables (\<open>clientID\<close>, \<open>clientSecret\<close>, \<open>organizations\<close>, \<open>teams\<close>).
\<close>

definition interactive ::
  "lib \<Rightarrow> operator \<Rightarrow> cluster \<Rightarrow> string \<Rightarrow> string \<Rightarrow> string \<Rightarrow> string \<Rightarrow> string \<Rightarrow>
   (error + string \<times> string \<times> string \<times> string) \<times> event list" where
  "interactive L ask cl idpName cid csec organizations teams =
     (let out0 = [Println registerFirst] in
      case resolveOrgsOrTeams ask organizations teams of
        (Inl e, evs) \<Rightarrow> (Inl e, out0 @ evs)
      | (Inr (organizations', teams'), evs) \<Rightarrow>
          (let base = registerURLBase organizations' teams' in
           if \<not> url_Parse L base then (Inl URLError, out0 @ evs)
           else
             (let out1 = out0 @ evs @
                [PrintlnURL \<lparr>rawurl = base, urlParams =
                   [(''oauth_application[name]'', clusterName cl),
                    (''oauth_application[url]'', consoleURL cl),
                    (''oauth_application[callback_url]'',
                       oauthURL cl @ ''/oauth2callback/'' @ idpName)]\<rparr>,
                 Println (''* Click on '' @ apostrophe @ ''Register application'' @ apostrophe)]
              in
              (case askIfEmpty ask ClientIDPrompt cid of
                 (Inl e, evs1) \<Rightarrow> (Inl e, out1 @ evs1)
               | (Inr cid', evs1) \<Rightarrow>
                   (case askIfEmpty ask ClientSecretPrompt csec of
                      (Inl e, evs2) \<Rightarrow> (Inl e, out1 @ evs1 @ evs2)
                    | (Inr csec', evs2) \<Rightarrow>
                        (Inr (cid', csec', organizations', teams'), out1 @ evs1 @ evs2))))))"

text \<open>
  Lines 39 to 120: the conflict check, the mode and the interactive flow. The result is
  the tuple of the local variables as the assembly below reads them.
\<close>

definition resolve ::
  "lib \<Rightarrow> operator \<Rightarrow> args \<Rightarrow> cluster \<Rightarrow> string \<Rightarrow>
   (error + string \<times> string \<times> string \<times> string) \<times> event list" where
  "resolve L ask a cl idpName =
     (if githubOrganizations a \<noteq> [] \<and> githubTeams a \<noteq> [] then (Inl ConflictError, [])
      else if isInteractive (clientID a) (clientSecret a) (githubOrganizations a) (githubTeams a)
      then interactive L ask cl idpName
             (clientID a) (clientSecret a) (githubOrganizations a) (githubTeams a)
      else (Inr (clientID a, clientSecret a, githubOrganizations a, githubTeams a), []))"

text \<open>Lines 127 to 141: the hostname to attach, if any.\<close>

definition checkHostname :: "lib \<Rightarrow> string \<Rightarrow> error + string option" where
  "checkHostname L hostname =
     (if hostname \<noteq> [] then
        (if \<not> isValidHostname L hostname then Inl (ValidationError NotDNSOrIP hostname)
         else if hostname = ''github.com'' \<or> HasSuffix hostname ''.github.com''
         then Inl (ValidationError GithubDomain hostname)
         else Inr (Some hostname))
      else Inr None)"

text \<open>Lines 144 to 148.\<close>

definition setOrgsOrTeams ::
  "string \<Rightarrow> string \<Rightarrow> GithubIdentityProviderBuilder \<Rightarrow> GithubIdentityProviderBuilder" where
  "setOrgsOrTeams organizations teams githubIDP =
     (if organizations \<noteq> [] then githubIDP\<lparr>Organizations := Some (Split organizations CHR '','')\<rparr>
      else if teams \<noteq> [] then githubIDP\<lparr>Teams := Some (Split teams CHR '','')\<rparr>
      else githubIDP)"

definition buildGithubIdp :: "lib \<Rightarrow> operator \<Rightarrow> args \<Rightarrow> cluster \<Rightarrow> string \<Rightarrow> outcome" where
  "buildGithubIdp L ask a cl idpName =
     (case resolve L ask a cl idpName of
        (Inl e, evs) \<Rightarrow> \<lparr>idpBuilder = zeroBuilder, err = Some e, out = evs\<rparr>
      | (Inr (cid, csec, organizations, teams), evs) \<Rightarrow>
          (case checkHostname L (githubHostname a) of
             Inl e \<Rightarrow> \<lparr>idpBuilder = zeroBuilder, err = Some e, out = evs\<rparr>
           | Inr host \<Rightarrow>
               \<lparr>idpBuilder =
                  \<lparr>Type = Some ''GithubIdentityProvider'',
                   Name = Some idpName,
                   MappingMethod = Some (mappingMethod a),
                   Github = Some (setOrgsOrTeams organizations teams
                     (NewGithubIdentityProvider
                        \<lparr>ClientID := Some cid, ClientSecret := Some csec, Hostname := host\<rparr>))\<rparr>,
                err = None, out = evs\<rparr>))"

section \<open>Inputs of the worked examples\<close>

text \<open>
  A library for the examples: \<open>ParseIPSloppy\<close> recognises no string, so that a
  hostname is valid exactly when the DNS check accepts it, and \<open>url.Parse\<close> accepts
  every string.
\<close>

definition plainLib :: lib where
  "plainLib = \<lparr>ParseIPSloppy = (\<lambda>s. False), url_Parse = (\<lambda>s. True)\<rparr>"

definition demoCluster :: cluster where
  "demoCluster =
     \<lparr>clusterName = ''demo'', consoleURL = ''https://console.example.com'',
      oauthURL = ''https://oauth.example.com''\<rparr>"

text \<open>An operator who aborts every prompt, and one who gives the same line to each.\<close>

definition aborts :: operator where
  "aborts p = None"

definition answers :: "string \<Rightarrow> operator" where
  "answers s p = Some s"

section \<open>Facts about the helpers\<close>

lemmas run_defs =
  buildGithubIdp_def resolve_def interactive_def resolveOrgsOrTeams_def askIfEmpty_def
  registerURLBase_def registerFirst_def isInteractive_def checkHostname_def
  isValidHostname_def setOrgsOrTeams_def NewGithubIdentityProvider_def zeroBuilder_def
  IsDNS1123Subdomain_def dns1123Label_def isLowerAlnum_def HasSuffix_def Contains_def
  apostrophe_def plainLib_def demoCluster_def aborts_def answers_def Let_def

lemma Split_not_Nil: "Split s sep \<noteq> []"
  by (induction s) (auto elim: joinFirst.elims)

lemma hd_joinFirst: "r \<noteq> [] \<Longrightarrow> hd (joinFirst x r) = x # hd r"
  by (cases r) auto

lemma hd_Split: "hd (Split s sep) = takeWhile (\<lambda>c. c \<noteq> sep) s"
  by (induction s) (auto simp: hd_joinFirst Split_not_Nil)

lemma Split_no_sep: "sep \<notin> set s \<Longrightarrow> Split s sep = [s]"
  by (induction s) auto

lemma HasSuffix_not_Nil: "HasSuffix h ''.github.com'' \<Longrightarrow> h \<noteq> []"
  by (auto simp: HasSuffix_def)

lemma askIfEmpty_Inl:
  "askIfEmpty ask p cur = (Inl e, evs) \<Longrightarrow>
     e = InputError p \<and> cur = [] \<and> ask p = None \<and> evs = [Ask p]"
  by (auto simp: askIfEmpty_def split: if_splits option.splits)

lemma resolveOrgsOrTeams_exclusive:
  "\<not> (orgs0 \<noteq> [] \<and> teams0 \<noteq> []) \<Longrightarrow>
   resolveOrgsOrTeams ask orgs0 teams0 = (Inr (orgs, teams), evs) \<Longrightarrow>
   \<not> (orgs \<noteq> [] \<and> teams \<noteq> [])"
  by (auto simp: resolveOrgsOrTeams_def Contains_def split: if_splits option.splits)

text \<open>A run is an error with the zero builder, or a success with the assembled one.\<close>

lemma buildGithubIdp_cases:
  "(\<exists>e evs. buildGithubIdp L ask a cl n =
      \<lparr>idpBuilder = zeroBuilder, err = Some e, out = evs\<rparr>) \<or>
   (\<exists>cid csec orgs teams evs host.
      resolve L ask a cl n = (Inr (cid, csec, orgs, teams), evs) \<and>
      checkHostname L (githubHostname a) = Inr host \<and>
      buildGithubIdp L ask a cl n =
        \<lparr>idpBuilder =
           \<lparr>Type = Some ''GithubIdentityProvider'', Name = Some n,
            MappingMethod = Some (mappingMethod a),
            Github = Some (setOrgsOrTeams orgs teams
              (NewGithubIdentityProvider
                 \<lparr>ClientID := Some cid, ClientSecret := Some csec, Hostname := host\<rparr>))\<rparr>,
         err = None, out = evs\<rparr>)"
  by (auto simp: buildGithubIdp_def split: prod.splits sum.splits)

lemma out_resolve: "out (buildGithubIdp L ask a cl n) = snd (resolve L ask a cl n)"
  by (simp add: buildGithubIdp_def split: prod.splits sum.splits)

lemma interactive_Inr:
  assumes "interactive L ask cl n cid0 csec0 orgs0 teams0 = (Inr (cid, csec, orgs, teams), evs)"
  shows "\<exists>evs0. resolveOrgsOrTeams ask orgs0 teams0 = (Inr (orgs, teams), evs0)"
proof (cases "resolveOrgsOrTeams ask orgs0 teams0")
  case (Pair x evs0)
  show ?thesis
  proof (cases x)
    case (Inl e)
    with Pair assms show ?thesis by (simp add: interactive_def)
  next
    case (Inr p)
    obtain o' t' where p: "p = (o', t')" by (cases p)
    from assms Pair Inr p have "o' = orgs \<and> t' = teams"
      by (simp add: interactive_def Let_def split: if_splits prod.splits sum.splits)
    with Pair Inr p show ?thesis by simp
  qed
qed

lemma interactive_out:
  "\<exists>evs. snd (interactive L ask cl n cid0 csec0 orgs0 teams0) = Println registerFirst # evs"
  by (simp add: interactive_def Let_def split: prod.splits sum.splits)

lemma resolve_Inr:
  assumes "resolve L ask a cl n = (Inr (cid, csec, orgs, teams), evs)"
  shows "\<not> (githubOrganizations a \<noteq> [] \<and> githubTeams a \<noteq> []) \<and>
    (if isInteractive (clientID a) (clientSecret a) (githubOrganizations a) (githubTeams a)
     then \<exists>evs0. resolveOrgsOrTeams ask (githubOrganizations a) (githubTeams a) =
            (Inr (orgs, teams), evs0)
     else orgs = githubOrganizations a \<and> teams = githubTeams a \<and> evs = [])"
proof -
  have nc: "\<not> (githubOrganizations a \<noteq> [] \<and> githubTeams a \<noteq> [])"
    using assms by (auto simp: resolve_def split: if_splits)
  show ?thesis
  proof (cases "isInteractive (clientID a) (clientSecret a) (githubOrganizations a) (githubTeams a)")
    case True
    with assms nc have "interactive L ask cl n (clientID a) (clientSecret a)
        (githubOrganizations a) (githubTeams a) = (Inr (cid, csec, orgs, teams), evs)"
      by (simp add: resolve_def split: if_splits)
    from interactive_Inr [OF this] True nc show ?thesis by simp
  next
    case False
    with assms nc show ?thesis by (auto simp: resolve_def split: if_splits)
  qed
qed

lemma resolve_exclusive:
  assumes "resolve L ask a cl n = (Inr (cid, csec, orgs, teams), evs)"
  shows "\<not> (orgs \<noteq> [] \<and> teams \<noteq> [])"
proof (cases "isInteractive (clientID a) (clientSecret a) (githubOrganizations a) (githubTeams a)")
  case True
  with resolve_Inr [OF assms] obtain evs0 where
    "\<not> (githubOrganizations a \<noteq> [] \<and> githubTeams a \<noteq> [])"
    "resolveOrgsOrTeams ask (githubOrganizations a) (githubTeams a) = (Inr (orgs, teams), evs0)"
    by auto
  then show ?thesis by (rule resolveOrgsOrTeams_exclusive)
next
  case False
  with resolve_Inr [OF assms] show ?thesis by auto
qed

text \<open>What a successful run returns, in terms of the resolved variables.\<close>

lemma success_github:
  assumes "err (buildGithubIdp L ask a cl n) = None"
  shows "\<exists>cid csec orgs teams evs host.
     resolve L ask a cl n = (Inr (cid, csec, orgs, teams), evs) \<and>
     Github (idpBuilder (buildGithubIdp L ask a cl n)) =
       Some (setOrgsOrTeams orgs teams
         \<lparr>ClientID = Some cid, ClientSecret = Some csec, Hostname = host,
          Organizations = None, Teams = None\<rparr>)"
  using buildGithubIdp_cases [of L ask a cl n] assms
  by (auto simp: NewGithubIdentityProvider_def)

section \<open>The conflict check\<close>

text \<open>
  C1. When the organizations and the teams are both non-empty, the run fails with the
  conflict error whatever the other inputs are, returns the zero builder, and has
  written nothing: no line was printed and no prompt was issued.
\<close>

theorem conflict_before_any_prompt:
  assumes "githubOrganizations a \<noteq> []" and "githubTeams a \<noteq> []"
  shows "buildGithubIdp L ask a cl idpName =
           \<lparr>idpBuilder = zeroBuilder, err = Some ConflictError, out = []\<rparr>"
  using assms by (simp add: buildGithubIdp_def resolve_def)

theorem conflict_before_any_prompt_witness:
  "buildGithubIdp plainLib aborts
     \<lparr>clientID = '''', clientSecret = '''', githubOrganizations = ''acme'',
      githubTeams = ''acme/devs'', githubHostname = ''not_valid_host!'',
      mappingMethod = ''claim''\<rparr> demoCluster ''github-1'' =
   \<lparr>idpBuilder = zeroBuilder, err = Some ConflictError, out = []\<rparr>"
  by (rule conflict_before_any_prompt) simp_all

section \<open>The round trip of organizations and teams\<close>

text \<open>
  C2 says that a successful run keeps the comma-split of the organizations it was given,
  also when only a credential is missing. The classification of lines 66 to 70 runs on
  the empty \<open>teamsOrOrgs\<close> when no combined prompt was issued, and its else branch
  assigns it to \<open>organizations\<close>. With the organization \<open>acme\<close> given and the client
  ID missing, the run succeeds and the configuration carries no organizations, where the
  comma-split of the input is the list of \<open>acme\<close> alone; the registration URL is the
  generic one.
\<close>

theorem organizations_flag_dropped_when_interactive:
  "Split ''acme'' CHR '','' = [''acme''] \<and>
   buildGithubIdp plainLib (answers ''id'')
     \<lparr>clientID = '''', clientSecret = ''secret'', githubOrganizations = ''acme'',
      githubTeams = '''', githubHostname = '''', mappingMethod = ''claim''\<rparr>
     demoCluster ''github-1'' =
   \<lparr>idpBuilder =
      \<lparr>Type = Some ''GithubIdentityProvider'', Name = Some ''github-1'',
       MappingMethod = Some ''claim'',
       Github = Some \<lparr>ClientID = Some ''id'', ClientSecret = Some ''secret'',
         Hostname = None, Organizations = None, Teams = None\<rparr>\<rparr>,
    err = None,
    out = [Println registerFirst,
           PrintlnURL \<lparr>rawurl = ''https://github.com/settings/applications/new'',
             urlParams =
               [(''oauth_application[name]'', ''demo''),
                (''oauth_application[url]'', ''https://console.example.com''),
                (''oauth_application[callback_url]'',
                 ''https://oauth.example.com/oauth2callback/github-1'')]\<rparr>,
           Println (''* Click on '' @ apostrophe @ ''Register application'' @ apostrophe),
           Ask ClientIDPrompt]\<rparr>"
  by (simp add: run_defs)

text \<open>
  X1. Teams given on the command line survive every successful run, interactive or not:
  the configuration carries their comma-split, in order, and no organizations.
\<close>

theorem teams_roundtrip:
  assumes "githubTeams a \<noteq> []"
      and "err (buildGithubIdp L ask a cl n) = None"
  shows "\<exists>g. Github (idpBuilder (buildGithubIdp L ask a cl n)) = Some g \<and>
              Teams g = Some (Split (githubTeams a) CHR '','') \<and> Organizations g = None"
proof -
  from success_github [OF assms(2)]
  obtain cid csec orgs teams evs host where
    r: "resolve L ask a cl n = (Inr (cid, csec, orgs, teams), evs)" and
    g: "Github (idpBuilder (buildGithubIdp L ask a cl n)) =
       Some (setOrgsOrTeams orgs teams
         \<lparr>ClientID = Some cid, ClientSecret = Some csec, Hostname = host,
          Organizations = None, Teams = None\<rparr>)"
    by blast
  from resolve_Inr [OF r] assms(1) have "orgs = [] \<and> teams = githubTeams a"
    by (auto simp: resolveOrgsOrTeams_def Contains_def split: if_splits)
  with assms(1) show ?thesis
    by (simp add: g setOrgsOrTeams_def)
qed

theorem teams_roundtrip_witness:
  "\<exists>g. Github (idpBuilder (buildGithubIdp plainLib (answers ''id'')
            \<lparr>clientID = '''', clientSecret = ''secret'', githubOrganizations = '''',
             githubTeams = ''acme/devs,acme/ops'', githubHostname = '''',
             mappingMethod = ''claim''\<rparr> demoCluster ''github-1'')) = Some g \<and>
        Teams g = Some [''acme/devs'', ''acme/ops''] \<and> Organizations g = None"
  using teams_roundtrip [of
      "\<lparr>clientID = '''', clientSecret = ''secret'', githubOrganizations = '''',
        githubTeams = ''acme/devs,acme/ops'', githubHostname = '''',
        mappingMethod = ''claim''\<rparr>" plainLib "answers ''id''" demoCluster "''github-1''"]
  by (simp add: run_defs)

text \<open>
  X2. Without the interactive flow (both credentials given), organizations given on the
  command line are kept: a successful run carries their comma-split, in order, and no
  teams.
\<close>

theorem organizations_roundtrip_batch:
  assumes "githubOrganizations a \<noteq> []" and "clientID a \<noteq> []" and "clientSecret a \<noteq> []"
      and "err (buildGithubIdp L ask a cl n) = None"
  shows "\<exists>g. Github (idpBuilder (buildGithubIdp L ask a cl n)) = Some g \<and>
              Organizations g = Some (Split (githubOrganizations a) CHR '','') \<and>
              Teams g = None"
proof -
  from success_github [OF assms(4)]
  obtain cid csec orgs teams evs host where
    r: "resolve L ask a cl n = (Inr (cid, csec, orgs, teams), evs)" and
    g: "Github (idpBuilder (buildGithubIdp L ask a cl n)) =
       Some (setOrgsOrTeams orgs teams
         \<lparr>ClientID = Some cid, ClientSecret = Some csec, Hostname = host,
          Organizations = None, Teams = None\<rparr>)"
    by blast
  from resolve_Inr [OF r] assms(1-3) have "orgs = githubOrganizations a"
    by (auto simp: isInteractive_def split: if_splits)
  with assms(1) show ?thesis
    by (simp add: g setOrgsOrTeams_def)
qed

theorem organizations_roundtrip_batch_witness:
  "\<exists>g. Github (idpBuilder (buildGithubIdp plainLib aborts
            \<lparr>clientID = ''id'', clientSecret = ''secret'', githubOrganizations = ''acme,beta'',
             githubTeams = '''', githubHostname = '''',
             mappingMethod = ''claim''\<rparr> demoCluster ''github-1'')) = Some g \<and>
        Organizations g = Some [''acme'', ''beta''] \<and> Teams g = None"
  using organizations_roundtrip_batch [of
      "\<lparr>clientID = ''id'', clientSecret = ''secret'', githubOrganizations = ''acme,beta'',
        githubTeams = '''', githubHostname = '''',
        mappingMethod = ''claim''\<rparr>" plainLib aborts demoCluster "''github-1''"]
  by (simp add: run_defs)

section \<open>The mode\<close>

text \<open>
  C3. The mode is a predicate of the four inputs alone: it holds exactly when the client
  ID is empty, or the client secret is empty, or the organizations and the teams are
  both empty. A run that passed the conflict check starts the interactive flow (it
  prints the line of the registration) exactly when the predicate holds; and when the
  predicate does not hold, so with both credentials and one of organizations and teams
  given, the run writes nothing: no prompt is issued.
\<close>

theorem mode_resolver_predicate:
  "(isInteractive (clientID a) (clientSecret a) (githubOrganizations a) (githubTeams a) \<longleftrightarrow>
      clientID a = [] \<or> clientSecret a = [] \<or>
      (githubOrganizations a = [] \<and> githubTeams a = [])) \<and>
   (\<not> (githubOrganizations a \<noteq> [] \<and> githubTeams a \<noteq> []) \<longrightarrow>
      ((\<exists>evs. out (buildGithubIdp L ask a cl n) = Println registerFirst # evs) \<longleftrightarrow>
       isInteractive (clientID a) (clientSecret a) (githubOrganizations a) (githubTeams a))) \<and>
   (\<not> isInteractive (clientID a) (clientSecret a) (githubOrganizations a) (githubTeams a) \<longrightarrow>
      out (buildGithubIdp L ask a cl n) = [])"
proof -
  have 1: "isInteractive (clientID a) (clientSecret a) (githubOrganizations a) (githubTeams a) \<longleftrightarrow>
      clientID a = [] \<or> clientSecret a = [] \<or>
      (githubOrganizations a = [] \<and> githubTeams a = [])"
    by (simp add: isInteractive_def)
  have 3: "out (buildGithubIdp L ask a cl n) = []"
    if "\<not> isInteractive (clientID a) (clientSecret a) (githubOrganizations a) (githubTeams a)"
    using that by (simp add: out_resolve resolve_def)
  have 2: "\<exists>evs. out (buildGithubIdp L ask a cl n) = Println registerFirst # evs"
    if "\<not> (githubOrganizations a \<noteq> [] \<and> githubTeams a \<noteq> [])"
       "isInteractive (clientID a) (clientSecret a) (githubOrganizations a) (githubTeams a)"
    using that interactive_out [of L ask cl n "clientID a" "clientSecret a"
        "githubOrganizations a" "githubTeams a"]
    by (auto simp: out_resolve resolve_def)
  from 1 2 3 show ?thesis by fastforce
qed

theorem mode_resolver_predicate_witness:
  "\<not> isInteractive ''x'' ''y'' ''acme'' '''' \<and>
   out (buildGithubIdp plainLib aborts
     \<lparr>clientID = ''x'', clientSecret = ''y'', githubOrganizations = ''acme'',
      githubTeams = '''', githubHostname = '''', mappingMethod = ''claim''\<rparr>
     demoCluster ''github-1'') = [] \<and>
   isInteractive '''' ''y'' '''' ''acme/devs'' \<and>
   (\<exists>evs. out (buildGithubIdp plainLib aborts
     \<lparr>clientID = '''', clientSecret = ''y'', githubOrganizations = '''',
      githubTeams = ''acme/devs'', githubHostname = '''', mappingMethod = ''claim''\<rparr>
     demoCluster ''github-1'') = Println registerFirst # evs)"
  using mode_resolver_predicate [of
      "\<lparr>clientID = ''x'', clientSecret = ''y'', githubOrganizations = ''acme'',
        githubTeams = '''', githubHostname = '''', mappingMethod = ''claim''\<rparr>"
      plainLib aborts demoCluster "''github-1''"]
    mode_resolver_predicate [of
      "\<lparr>clientID = '''', clientSecret = ''y'', githubOrganizations = '''',
        githubTeams = ''acme/devs'', githubHostname = '''', mappingMethod = ''claim''\<rparr>"
      plainLib aborts demoCluster "''github-1''"]
  by simp

section \<open>The hostname\<close>

text \<open>
  C4 as stated fails: \<open>github.com\<close> is a valid DNS-1123 subdomain, and a run that
  reaches the hostname check with it fails with a validation error (lines 135 to 138).
\<close>

theorem valid_hostname_rejected_counterexample:
  "githubHostname
     \<lparr>clientID = ''id'', clientSecret = ''secret'', githubOrganizations = ''acme'',
      githubTeams = '''', githubHostname = ''github.com'', mappingMethod = ''claim''\<rparr> \<noteq> [] \<and>
   IsDNS1123Subdomain ''github.com'' = [] \<and>
   isValidHostname plainLib ''github.com'' \<and>
   buildGithubIdp plainLib aborts
     \<lparr>clientID = ''id'', clientSecret = ''secret'', githubOrganizations = ''acme'',
      githubTeams = '''', githubHostname = ''github.com'', mappingMethod = ''claim''\<rparr>
     demoCluster ''github-1'' =
   \<lparr>idpBuilder = zeroBuilder, err = Some (ValidationError GithubDomain ''github.com''),
    out = []\<rparr>"
  by (simp add: run_defs)

text \<open>
  C4, amended. A hostname is valid when it is a DNS-1123 subdomain (at most 253
  characters, every dot-separated label a DNS-1123 label) or \<open>ParseIPSloppy\<close> accepts
  it. For a non-empty hostname, a run that passed the conflict check and the interactive
  flow succeeds with the hostname attached unchanged if and only if the hostname is valid
  and is neither \<open>github.com\<close> nor ends with \<open>.github.com\<close>; otherwise it returns the
  zero builder and a validation error whose text starts with the hostname in quotes.
\<close>

theorem hostname_accepted_iff:
  assumes "githubHostname a \<noteq> []"
      and "resolve L ask a cl n = (Inr (cid, csec, orgs, teams), evs)"
  shows "(isValidHostname L (githubHostname a) \<longleftrightarrow>
            (length (githubHostname a) \<le> 253 \<and>
             list_all dns1123Label (Split (githubHostname a) CHR ''.'')) \<or>
            ParseIPSloppy L (githubHostname a)) \<and>
         (if isValidHostname L (githubHostname a) \<and> githubHostname a \<noteq> ''github.com'' \<and>
             \<not> HasSuffix (githubHostname a) ''.github.com''
          then err (buildGithubIdp L ask a cl n) = None \<and>
               (\<exists>g. Github (idpBuilder (buildGithubIdp L ask a cl n)) = Some g \<and>
                    Hostname g = Some (githubHostname a))
          else idpBuilder (buildGithubIdp L ask a cl n) = zeroBuilder \<and>
               (\<exists>f rest. err (buildGithubIdp L ask a cl n) =
                           Some (ValidationError f (githubHostname a)) \<and>
                         errorText (ValidationError f (githubHostname a)) =
                           apostrophe @ githubHostname a @ apostrophe @ rest))"
proof -
  have v: "isValidHostname L (githubHostname a) \<longleftrightarrow>
            (length (githubHostname a) \<le> 253 \<and>
             list_all dns1123Label (Split (githubHostname a) CHR ''.'')) \<or>
            ParseIPSloppy L (githubHostname a)"
    by (auto simp: isValidHostname_def IsDNS1123Subdomain_def)
  have g: "Hostname (setOrgsOrTeams orgs teams g) = Hostname g" for g
    by (simp add: setOrgsOrTeams_def)
  have "if isValidHostname L (githubHostname a) \<and> githubHostname a \<noteq> ''github.com'' \<and>
             \<not> HasSuffix (githubHostname a) ''.github.com''
          then err (buildGithubIdp L ask a cl n) = None \<and>
               (\<exists>g. Github (idpBuilder (buildGithubIdp L ask a cl n)) = Some g \<and>
                    Hostname g = Some (githubHostname a))
          else idpBuilder (buildGithubIdp L ask a cl n) = zeroBuilder \<and>
               (\<exists>f rest. err (buildGithubIdp L ask a cl n) =
                           Some (ValidationError f (githubHostname a)) \<and>
                         errorText (ValidationError f (githubHostname a)) =
                           apostrophe @ githubHostname a @ apostrophe @ rest)"
    using assms
    by (simp add: buildGithubIdp_def checkHostname_def g NewGithubIdentityProvider_def)
  with v show ?thesis by blast
qed

theorem hostname_accepted_iff_witness:
  "isValidHostname plainLib ''ghe.example.com'' \<and>
   err (buildGithubIdp plainLib aborts
     \<lparr>clientID = ''id'', clientSecret = ''secret'', githubOrganizations = ''acme'',
      githubTeams = '''', githubHostname = ''ghe.example.com'', mappingMethod = ''claim''\<rparr>
     demoCluster ''github-1'') = None \<and>
   (\<exists>g. Github (idpBuilder (buildGithubIdp plainLib aborts
     \<lparr>clientID = ''id'', clientSecret = ''secret'', githubOrganizations = ''acme'',
      githubTeams = '''', githubHostname = ''ghe.example.com'', mappingMethod = ''claim''\<rparr>
     demoCluster ''github-1'')) = Some g \<and> Hostname g = Some ''ghe.example.com'')"
proof -
  let ?a = "\<lparr>clientID = ''id'', clientSecret = ''secret'', githubOrganizations = ''acme'',
      githubTeams = '''', githubHostname = ''ghe.example.com'', mappingMethod = ''claim''\<rparr>"
  have h: "githubHostname ?a \<noteq> []" by simp
  have r: "resolve plainLib aborts ?a demoCluster ''github-1'' =
             (Inr (''id'', ''secret'', ''acme'', ''''), [])"
    by (simp add: resolve_def isInteractive_def)
  have v: "isValidHostname plainLib ''ghe.example.com''"
    by (simp add: run_defs)
  have s: "\<not> HasSuffix ''ghe.example.com'' ''.github.com''"
    by (simp add: HasSuffix_def)
  from hostname_accepted_iff [OF h r] v s show ?thesis by simp
qed

text \<open>
  C5. With the hostname \<open>github.com\<close>, or one that ends with \<open>.github.com\<close>, no run
  succeeds: it returns an error and the zero builder. When the run passed the conflict
  check and the interactive flow, the error is a validation error about this hostname,
  and for a hostname that passes the syntax check it is the one of lines 135 to 138.
\<close>

theorem github_domain_rejected:
  assumes "githubHostname a = ''github.com'' \<or> HasSuffix (githubHostname a) ''.github.com''"
  shows "err (buildGithubIdp L ask a cl n) \<noteq> None \<and>
         idpBuilder (buildGithubIdp L ask a cl n) = zeroBuilder \<and>
         (\<forall>cid csec orgs teams evs.
            resolve L ask a cl n = (Inr (cid, csec, orgs, teams), evs) \<longrightarrow>
              (\<exists>f. err (buildGithubIdp L ask a cl n) =
                     Some (ValidationError f (githubHostname a))) \<and>
              (isValidHostname L (githubHostname a) \<longrightarrow>
                 err (buildGithubIdp L ask a cl n) =
                   Some (ValidationError GithubDomain (githubHostname a))))"
proof -
  have ne: "githubHostname a \<noteq> []"
    using assms HasSuffix_not_Nil by auto
  have c: "checkHostname L (githubHostname a) =
      Inl (ValidationError
             (if isValidHostname L (githubHostname a) then GithubDomain else NotDNSOrIP)
             (githubHostname a))"
    using assms ne by (auto simp: checkHostname_def)
  show ?thesis
    by (simp add: buildGithubIdp_def c split: prod.splits sum.splits)
qed

theorem github_domain_rejected_witness:
  "HasSuffix ''x.github.com'' ''.github.com'' \<and>
   IsDNS1123Subdomain ''x.github.com'' = [] \<and>
   err (buildGithubIdp plainLib aborts
     \<lparr>clientID = ''id'', clientSecret = ''secret'', githubOrganizations = ''acme'',
      githubTeams = '''', githubHostname = ''x.github.com'', mappingMethod = ''claim''\<rparr>
     demoCluster ''github-1'') = Some (ValidationError GithubDomain ''x.github.com'') \<and>
   idpBuilder (buildGithubIdp plainLib aborts
     \<lparr>clientID = ''id'', clientSecret = ''secret'', githubOrganizations = ''acme'',
      githubTeams = '''', githubHostname = ''x.github.com'', mappingMethod = ''claim''\<rparr>
     demoCluster ''github-1'') = zeroBuilder"
proof -
  let ?a = "\<lparr>clientID = ''id'', clientSecret = ''secret'', githubOrganizations = ''acme'',
      githubTeams = '''', githubHostname = ''x.github.com'', mappingMethod = ''claim''\<rparr>"
  have s: "HasSuffix ''x.github.com'' ''.github.com''"
    by (simp add: HasSuffix_def)
  then have h: "githubHostname ?a = ''github.com'' \<or> HasSuffix (githubHostname ?a) ''.github.com''"
    by simp
  have r: "resolve plainLib aborts ?a demoCluster ''github-1'' =
             (Inr (''id'', ''secret'', ''acme'', ''''), [])"
    by (simp add: resolve_def isInteractive_def)
  have d: "IsDNS1123Subdomain ''x.github.com'' = []"
    by (simp add: run_defs)
  then have v: "isValidHostname plainLib (githubHostname ?a)"
    by (simp add: isValidHostname_def)
  from github_domain_rejected [OF h, of plainLib aborts demoCluster "''github-1''"] r v
  have "err (buildGithubIdp plainLib aborts ?a demoCluster ''github-1'') =
          Some (ValidationError GithubDomain (githubHostname ?a)) \<and>
        idpBuilder (buildGithubIdp plainLib aborts ?a demoCluster ''github-1'') = zeroBuilder"
    by blast
  with s d show ?thesis by simp
qed

section \<open>The registration URL\<close>

text \<open>
  C6. Whenever a run prints the registration URL, the string it handed to
  \<open>url.Parse\<close> is \<open>https://github.com\<close> followed by a path that depends on the
  resolved organizations and teams (the variables after lines 54 to 70): the page of
  the organization when the organizations are non-empty and hold no comma; else the
  page of the organization before the first slash of the teams when the teams are
  non-empty and hold no comma; else the generic page.
\<close>

theorem registration_url_base:
  assumes "resolveOrgsOrTeams ask (githubOrganizations a) (githubTeams a) =
             (Inr (orgs, teams), evs)"
      and "PrintlnURL u \<in> set (out (buildGithubIdp L ask a cl n))"
  shows "rawurl u = ''https://github.com'' @
     (if orgs \<noteq> [] \<and> CHR '','' \<notin> set orgs
      then ''/organizations/'' @ orgs @ ''/settings/applications/new''
      else if teams \<noteq> [] \<and> CHR '','' \<notin> set teams
      then ''/organizations/'' @ takeWhile (\<lambda>c. c \<noteq> CHR ''/'') teams @
           ''/settings/applications/new''
      else ''/settings/applications/new'')"
proof -
  have base: "registerURLBase orgs teams = ''https://github.com'' @
     (if orgs \<noteq> [] \<and> CHR '','' \<notin> set orgs
      then ''/organizations/'' @ orgs @ ''/settings/applications/new''
      else if teams \<noteq> [] \<and> CHR '','' \<notin> set teams
      then ''/organizations/'' @ takeWhile (\<lambda>c. c \<noteq> CHR ''/'') teams @
           ''/settings/applications/new''
      else ''/settings/applications/new'')"
    by (simp add: registerURLBase_def Contains_def hd_Split)
  have ask_no_url: "PrintlnURL u \<notin> set (snd (askIfEmpty ask p cur))" for p cur
    by (simp add: askIfEmpty_def split: option.splits)
  have no_url: "PrintlnURL u \<notin> set evs"
    using assms(1) by (auto simp: resolveOrgsOrTeams_def split: if_splits option.splits)
  have "rawurl u = registerURLBase orgs teams"
    using assms ask_no_url [of ClientIDPrompt "clientID a"]
      ask_no_url [of ClientSecretPrompt "clientSecret a"] no_url
    by (auto simp: out_resolve resolve_def interactive_def Let_def
             split: if_splits prod.splits sum.splits)
  with base show ?thesis by simp
qed

theorem registration_url_base_witness:
  "(\<exists>u. PrintlnURL u \<in> set (out (buildGithubIdp plainLib (answers ''acme'')
       \<lparr>clientID = ''id'', clientSecret = ''secret'', githubOrganizations = '''',
        githubTeams = '''', githubHostname = '''', mappingMethod = ''claim''\<rparr>
       demoCluster ''github-1'')) \<and>
     rawurl u = ''https://github.com/organizations/acme/settings/applications/new'') \<and>
   (\<exists>u. PrintlnURL u \<in> set (out (buildGithubIdp plainLib (answers ''acme,beta'')
       \<lparr>clientID = ''id'', clientSecret = ''secret'', githubOrganizations = '''',
        githubTeams = '''', githubHostname = '''', mappingMethod = ''claim''\<rparr>
       demoCluster ''github-1'')) \<and>
     rawurl u = ''https://github.com/settings/applications/new'') \<and>
   (\<exists>u. PrintlnURL u \<in> set (out (buildGithubIdp plainLib (answers ''id'')
       \<lparr>clientID = '''', clientSecret = ''secret'', githubOrganizations = '''',
        githubTeams = ''acme/devs'', githubHostname = '''', mappingMethod = ''claim''\<rparr>
       demoCluster ''github-1'')) \<and>
     rawurl u = ''https://github.com/organizations/acme/settings/applications/new'')"
proof -
  let ?q = "[(''oauth_application[name]'', ''demo''),
             (''oauth_application[url]'', ''https://console.example.com''),
             (''oauth_application[callback_url]'',
              ''https://oauth.example.com/oauth2callback/github-1'')]"
  let ?a = "\<lparr>clientID = ''id'', clientSecret = ''secret'', githubOrganizations = '''',
        githubTeams = '''', githubHostname = '''', mappingMethod = ''claim''\<rparr>"
  let ?b = "\<lparr>clientID = '''', clientSecret = ''secret'', githubOrganizations = '''',
        githubTeams = ''acme/devs'', githubHostname = '''', mappingMethod = ''claim''\<rparr>"
  let ?u1 = "\<lparr>rawurl = ''https://github.com/organizations/acme/settings/applications/new'',
              urlParams = ?q\<rparr>"
  let ?u2 = "\<lparr>rawurl = ''https://github.com/settings/applications/new'', urlParams = ?q\<rparr>"
  have r1: "resolveOrgsOrTeams (answers ''acme'') (githubOrganizations ?a) (githubTeams ?a) =
              (Inr (''acme'', ''''), [Ask OrgsOrTeamsPrompt])"
    by (simp add: resolveOrgsOrTeams_def Contains_def answers_def)
  have m1: "PrintlnURL ?u1 \<in> set (out (buildGithubIdp plainLib (answers ''acme'') ?a
              demoCluster ''github-1''))"
    by (simp add: run_defs)
  have r2: "resolveOrgsOrTeams (answers ''acme,beta'') (githubOrganizations ?a) (githubTeams ?a) =
              (Inr (''acme,beta'', ''''), [Ask OrgsOrTeamsPrompt])"
    by (simp add: resolveOrgsOrTeams_def Contains_def answers_def)
  have m2: "PrintlnURL ?u2 \<in> set (out (buildGithubIdp plainLib (answers ''acme,beta'') ?a
              demoCluster ''github-1''))"
    by (simp add: run_defs)
  have r3: "resolveOrgsOrTeams (answers ''id'') (githubOrganizations ?b) (githubTeams ?b) =
              (Inr ('''', ''acme/devs''), [])"
    by (simp add: resolveOrgsOrTeams_def Contains_def)
  have m3: "PrintlnURL ?u1 \<in> set (out (buildGithubIdp plainLib (answers ''id'') ?b
              demoCluster ''github-1''))"
    by (simp add: run_defs)
  have c1: "rawurl ?u1 = ''https://github.com/organizations/acme/settings/applications/new''"
    using registration_url_base [OF r1 m1] by simp
  have c2: "rawurl ?u2 = ''https://github.com/settings/applications/new''"
    using registration_url_base [OF r2 m2] by simp
  have c3: "rawurl ?u1 = ''https://github.com/organizations/acme/settings/applications/new''"
    using registration_url_base [OF r3 m3] by simp
  from m1 c1 m2 c2 m3 c3 show ?thesis by blast
qed

section \<open>The combined prompt\<close>

text \<open>
  C7 as stated fails: an operator who answers the combined prompt with the empty line
  is not refused. The run goes on and succeeds, and the configuration carries neither
  organizations nor teams.
\<close>

theorem empty_answer_accepted_counterexample:
  "githubOrganizations
     \<lparr>clientID = ''id'', clientSecret = ''secret'', githubOrganizations = '''',
      githubTeams = '''', githubHostname = '''', mappingMethod = ''claim''\<rparr> = [] \<and>
   answers '''' OrgsOrTeamsPrompt = Some [] \<and>
   buildGithubIdp plainLib (answers '''')
     \<lparr>clientID = ''id'', clientSecret = ''secret'', githubOrganizations = '''',
      githubTeams = '''', githubHostname = '''', mappingMethod = ''claim''\<rparr>
     demoCluster ''github-1'' =
   \<lparr>idpBuilder =
      \<lparr>Type = Some ''GithubIdentityProvider'', Name = Some ''github-1'',
       MappingMethod = Some ''claim'',
       Github = Some \<lparr>ClientID = Some ''id'', ClientSecret = Some ''secret'',
         Hostname = None, Organizations = None, Teams = None\<rparr>\<rparr>,
    err = None,
    out = [Println registerFirst, Ask OrgsOrTeamsPrompt,
           PrintlnURL \<lparr>rawurl = ''https://github.com/settings/applications/new'',
             urlParams =
               [(''oauth_application[name]'', ''demo''),
                (''oauth_application[url]'', ''https://console.example.com''),
                (''oauth_application[callback_url]'',
                 ''https://oauth.example.com/oauth2callback/github-1'')]\<rparr>,
           Println (''* Click on '' @ apostrophe @ ''Register application'' @ apostrophe)]\<rparr>"
  by (simp add: run_defs)

text \<open>
  C7, amended. With organizations and teams both empty, the run fails with the input
  error of the combined prompt when the prompt is aborted, after the first line and
  that one prompt. Any answer is accepted, the empty line included: it becomes the
  teams when it holds a slash and the organizations otherwise, the run never fails with
  the input error of the combined prompt, and a run that succeeds carries the
  comma-split of the answer as teams or as organizations accordingly (neither, for the
  empty line).
\<close>

theorem combined_prompt_abort_and_classify:
  assumes "githubOrganizations a = []" and "githubTeams a = []"
  shows "(ask OrgsOrTeamsPrompt = None \<longrightarrow>
            buildGithubIdp L ask a cl n =
              \<lparr>idpBuilder = zeroBuilder, err = Some (InputError OrgsOrTeamsPrompt),
               out = [Println registerFirst, Ask OrgsOrTeamsPrompt]\<rparr>) \<and>
         (\<forall>t. ask OrgsOrTeamsPrompt = Some t \<longrightarrow>
            resolveOrgsOrTeams ask (githubOrganizations a) (githubTeams a) =
              (Inr (if CHR ''/'' \<in> set t then ([], t) else (t, [])), [Ask OrgsOrTeamsPrompt]) \<and>
            err (buildGithubIdp L ask a cl n) \<noteq> Some (InputError OrgsOrTeamsPrompt) \<and>
            (err (buildGithubIdp L ask a cl n) = None \<longrightarrow>
               (\<exists>g. Github (idpBuilder (buildGithubIdp L ask a cl n)) = Some g \<and>
                  Organizations g =
                    (if CHR ''/'' \<in> set t \<or> t = [] then None else Some (Split t CHR '','')) \<and>
                  Teams g = (if CHR ''/'' \<in> set t then Some (Split t CHR '','') else None))))"
proof -
  have i: "isInteractive (clientID a) (clientSecret a) (githubOrganizations a) (githubTeams a)"
    using assms by (simp add: isInteractive_def)
  have r: "resolve L ask a cl n =
     interactive L ask cl n (clientID a) (clientSecret a) [] []"
    using assms i by (simp add: resolve_def)
  have A: "buildGithubIdp L ask a cl n =
              \<lparr>idpBuilder = zeroBuilder, err = Some (InputError OrgsOrTeamsPrompt),
               out = [Println registerFirst, Ask OrgsOrTeamsPrompt]\<rparr>"
    if "ask OrgsOrTeamsPrompt = None"
    using that by (simp add: buildGithubIdp_def r interactive_def resolveOrgsOrTeams_def)
  have B: "resolveOrgsOrTeams ask (githubOrganizations a) (githubTeams a) =
              (Inr (if CHR ''/'' \<in> set t then ([], t) else (t, [])), [Ask OrgsOrTeamsPrompt])"
    if "ask OrgsOrTeamsPrompt = Some t" for t
    using that assms by (simp add: resolveOrgsOrTeams_def Contains_def)
  have C: "err (buildGithubIdp L ask a cl n) \<noteq> Some (InputError OrgsOrTeamsPrompt)"
    if t: "ask OrgsOrTeamsPrompt = Some t" for t
  proof -
    have "fst (interactive L ask cl n (clientID a) (clientSecret a) [] []) \<noteq>
            Inl (InputError OrgsOrTeamsPrompt)"
      using t
      by (auto simp: interactive_def resolveOrgsOrTeams_def Let_def
               split: prod.splits sum.splits dest: askIfEmpty_Inl)
    moreover have "checkHostname L (githubHostname a) \<noteq> Inl (InputError OrgsOrTeamsPrompt)"
      by (simp add: checkHostname_def)
    ultimately show ?thesis
      by (auto simp: buildGithubIdp_def r split: prod.splits sum.splits)
  qed
  have D: "\<exists>g. Github (idpBuilder (buildGithubIdp L ask a cl n)) = Some g \<and>
                  Organizations g =
                    (if CHR ''/'' \<in> set t \<or> t = [] then None else Some (Split t CHR '','')) \<and>
                  Teams g = (if CHR ''/'' \<in> set t then Some (Split t CHR '','') else None)"
    if t: "ask OrgsOrTeamsPrompt = Some t" and ok: "err (buildGithubIdp L ask a cl n) = None" for t
  proof -
    from success_github [OF ok]
    obtain cid csec orgs teams evs host where
      rr: "resolve L ask a cl n = (Inr (cid, csec, orgs, teams), evs)" and
      g: "Github (idpBuilder (buildGithubIdp L ask a cl n)) =
         Some (setOrgsOrTeams orgs teams
           \<lparr>ClientID = Some cid, ClientSecret = Some csec, Hostname = host,
            Organizations = None, Teams = None\<rparr>)"
      by blast
    from resolve_Inr [OF rr] i B [OF t]
    have ot: "(orgs, teams) = (if CHR ''/'' \<in> set t then ([], t) else (t, []))"
      by auto
    show ?thesis
      using ot by (auto simp: g setOrgsOrTeams_def split: if_splits)
  qed
  from A B C D show ?thesis by blast
qed

theorem combined_prompt_abort_and_classify_witness:
  "buildGithubIdp plainLib aborts
     \<lparr>clientID = ''id'', clientSecret = ''secret'', githubOrganizations = '''',
      githubTeams = '''', githubHostname = '''', mappingMethod = ''claim''\<rparr>
     demoCluster ''github-1'' =
     \<lparr>idpBuilder = zeroBuilder, err = Some (InputError OrgsOrTeamsPrompt),
      out = [Println registerFirst, Ask OrgsOrTeamsPrompt]\<rparr> \<and>
   (\<exists>g. Github (idpBuilder (buildGithubIdp plainLib (answers ''acme/devs,acme/ops'')
       \<lparr>clientID = ''id'', clientSecret = ''secret'', githubOrganizations = '''',
        githubTeams = '''', githubHostname = '''', mappingMethod = ''claim''\<rparr>
       demoCluster ''github-1'')) = Some g \<and>
      Organizations g = None \<and> Teams g = Some [''acme/devs'', ''acme/ops''])"
proof -
  let ?a = "\<lparr>clientID = ''id'', clientSecret = ''secret'', githubOrganizations = '''',
      githubTeams = '''', githubHostname = '''', mappingMethod = ''claim''\<rparr>"
  have o: "githubOrganizations ?a = []" and t: "githubTeams ?a = []" by simp_all
  have n: "aborts OrgsOrTeamsPrompt = None" by (simp add: aborts_def)
  have s: "answers ''acme/devs,acme/ops'' OrgsOrTeamsPrompt = Some ''acme/devs,acme/ops''"
    by (simp add: answers_def)
  have ok: "err (buildGithubIdp plainLib (answers ''acme/devs,acme/ops'') ?a
              demoCluster ''github-1'') = None"
    by (simp add: run_defs)
  have sp: "Split ''acme/devs,acme/ops'' CHR '','' = [''acme/devs'', ''acme/ops'']"
    by simp
  from combined_prompt_abort_and_classify [OF o t, of aborts plainLib demoCluster "''github-1''"] n
  have 1: "buildGithubIdp plainLib aborts ?a demoCluster ''github-1'' =
     \<lparr>idpBuilder = zeroBuilder, err = Some (InputError OrgsOrTeamsPrompt),
      out = [Println registerFirst, Ask OrgsOrTeamsPrompt]\<rparr>"
    by blast
  from combined_prompt_abort_and_classify [OF o t,
      of "answers ''acme/devs,acme/ops''" plainLib demoCluster "''github-1''"] s ok
  have "\<exists>g. Github (idpBuilder (buildGithubIdp plainLib (answers ''acme/devs,acme/ops'') ?a
              demoCluster ''github-1'')) = Some g \<and>
          Organizations g =
            (if CHR ''/'' \<in> set ''acme/devs,acme/ops'' \<or> ''acme/devs,acme/ops'' = [] then None
             else Some (Split ''acme/devs,acme/ops'' CHR '','')) \<and>
          Teams g = (if CHR ''/'' \<in> set ''acme/devs,acme/ops''
                     then Some (Split ''acme/devs,acme/ops'' CHR '','') else None)"
    by blast
  then have 2: "\<exists>g. Github (idpBuilder (buildGithubIdp plainLib (answers ''acme/devs,acme/ops'') ?a
              demoCluster ''github-1'')) = Some g \<and>
          Organizations g = None \<and> Teams g = Some [''acme/devs'', ''acme/ops'']"
    by (simp add: sp)
  from 1 2 show ?thesis by blast
qed

section \<open>The assembled configuration\<close>

text \<open>
  C8. Every run ends in one of two ways: without an error and with a builder that
  carries the provider type, the name, the mapping method and the GitHub provider with
  both credentials; or with an error and the zero builder.
\<close>

theorem assembly_atomic:
  "(err (buildGithubIdp L ask a cl n) = None \<and>
    Type (idpBuilder (buildGithubIdp L ask a cl n)) = Some ''GithubIdentityProvider'' \<and>
    Name (idpBuilder (buildGithubIdp L ask a cl n)) = Some n \<and>
    MappingMethod (idpBuilder (buildGithubIdp L ask a cl n)) = Some (mappingMethod a) \<and>
    (\<exists>g cid csec. Github (idpBuilder (buildGithubIdp L ask a cl n)) = Some g \<and>
       ClientID g = Some cid \<and> ClientSecret g = Some csec)) \<or>
   (err (buildGithubIdp L ask a cl n) \<noteq> None \<and>
    idpBuilder (buildGithubIdp L ask a cl n) = zeroBuilder)"
  using buildGithubIdp_cases [of L ask a cl n]
  by (auto simp: setOrgsOrTeams_def NewGithubIdentityProvider_def)

theorem assembly_atomic_witness:
  "err (buildGithubIdp plainLib (answers ''acme'')
     \<lparr>clientID = '''', clientSecret = '''', githubOrganizations = '''',
      githubTeams = '''', githubHostname = ''not_valid_host!'', mappingMethod = ''claim''\<rparr>
     demoCluster ''github-1'') = Some (ValidationError NotDNSOrIP ''not_valid_host!'') \<and>
   idpBuilder (buildGithubIdp plainLib (answers ''acme'')
     \<lparr>clientID = '''', clientSecret = '''', githubOrganizations = '''',
      githubTeams = '''', githubHostname = ''not_valid_host!'', mappingMethod = ''claim''\<rparr>
     demoCluster ''github-1'') = zeroBuilder"
proof -
  let ?a = "\<lparr>clientID = '''', clientSecret = '''', githubOrganizations = '''',
      githubTeams = '''', githubHostname = ''not_valid_host!'', mappingMethod = ''claim''\<rparr>"
  have e: "err (buildGithubIdp plainLib (answers ''acme'') ?a demoCluster ''github-1'') =
             Some (ValidationError NotDNSOrIP ''not_valid_host!'')"
    by (simp add: run_defs)
  with assembly_atomic [of plainLib "answers ''acme''" ?a demoCluster "''github-1''"]
  show ?thesis by simp
qed

text \<open>
  C9. In the configuration of every successful run, organizations and teams are never
  both set: it carries the comma-split of the resolved organizations and no teams, or
  the comma-split of the resolved teams and no organizations, or neither when both
  resolved variables are empty.
\<close>

theorem organizations_teams_exclusive:
  assumes "err (buildGithubIdp L ask a cl n) = None"
  shows "\<exists>cid csec orgs teams evs g.
     resolve L ask a cl n = (Inr (cid, csec, orgs, teams), evs) \<and>
     Github (idpBuilder (buildGithubIdp L ask a cl n)) = Some g \<and>
     \<not> (Organizations g \<noteq> None \<and> Teams g \<noteq> None) \<and>
     ((orgs \<noteq> [] \<and> teams = [] \<and>
         Organizations g = Some (Split orgs CHR '','') \<and> Teams g = None) \<or>
      (orgs = [] \<and> teams \<noteq> [] \<and>
         Organizations g = None \<and> Teams g = Some (Split teams CHR '','')) \<or>
      (orgs = [] \<and> teams = [] \<and> Organizations g = None \<and> Teams g = None))"
proof -
  from success_github [OF assms]
  obtain cid csec orgs teams evs host where
    r: "resolve L ask a cl n = (Inr (cid, csec, orgs, teams), evs)" and
    g: "Github (idpBuilder (buildGithubIdp L ask a cl n)) =
       Some (setOrgsOrTeams orgs teams
         \<lparr>ClientID = Some cid, ClientSecret = Some csec, Hostname = host,
          Organizations = None, Teams = None\<rparr>)"
    by blast
  let ?g = "setOrgsOrTeams orgs teams
         \<lparr>ClientID = Some cid, ClientSecret = Some csec, Hostname = host,
          Organizations = None, Teams = None\<rparr>"
  have x: "\<not> (orgs \<noteq> [] \<and> teams \<noteq> [])" by (rule resolve_exclusive [OF r])
  have "\<not> (Organizations ?g \<noteq> None \<and> Teams ?g \<noteq> None) \<and>
     ((orgs \<noteq> [] \<and> teams = [] \<and>
         Organizations ?g = Some (Split orgs CHR '','') \<and> Teams ?g = None) \<or>
      (orgs = [] \<and> teams \<noteq> [] \<and>
         Organizations ?g = None \<and> Teams ?g = Some (Split teams CHR '','')) \<or>
      (orgs = [] \<and> teams = [] \<and> Organizations ?g = None \<and> Teams ?g = None))"
    using x by (auto simp: setOrgsOrTeams_def)
  with r g show ?thesis by blast
qed

theorem organizations_teams_exclusive_witness:
  "\<exists>g. Github (idpBuilder (buildGithubIdp plainLib (answers ''acme,beta'')
       \<lparr>clientID = ''id'', clientSecret = ''secret'', githubOrganizations = '''',
        githubTeams = '''', githubHostname = '''', mappingMethod = ''claim''\<rparr>
       demoCluster ''github-1'')) = Some g \<and>
     Organizations g = Some [''acme'', ''beta''] \<and> Teams g = None"
proof -
  let ?a = "\<lparr>clientID = ''id'', clientSecret = ''secret'', githubOrganizations = '''',
        githubTeams = '''', githubHostname = '''', mappingMethod = ''claim''\<rparr>"
  have ok: "err (buildGithubIdp plainLib (answers ''acme,beta'') ?a demoCluster ''github-1'') =
              None"
    by (simp add: run_defs)
  have r: "resolve plainLib (answers ''acme,beta'') ?a demoCluster ''github-1'' =
      (Inr (''id'', ''secret'', ''acme,beta'', ''''),
       [Println registerFirst, Ask OrgsOrTeamsPrompt,
        PrintlnURL \<lparr>rawurl = ''https://github.com/settings/applications/new'',
          urlParams =
            [(''oauth_application[name]'', ''demo''),
             (''oauth_application[url]'', ''https://console.example.com''),
             (''oauth_application[callback_url]'',
              ''https://oauth.example.com/oauth2callback/github-1'')]\<rparr>,
        Println (''* Click on '' @ apostrophe @ ''Register application'' @ apostrophe)])"
    by (simp add: run_defs)
  have sp: "Split ''acme,beta'' CHR '','' = [''acme'', ''beta'']" by simp
  from organizations_teams_exclusive [OF ok]
  show ?thesis unfolding r by (auto simp: sp)
qed

section \<open>The mapping method\<close>

text \<open>
  C10. The mapping method is not checked: running with any other mapping method, the
  empty one included, gives the same error and output, or the same success with that
  string as the mapping method of the builder; a successful run carries the mapping
  method it was given, unchanged.
\<close>

theorem mapping_method_verbatim:
  "buildGithubIdp L ask (a\<lparr>mappingMethod := m\<rparr>) cl n =
     (if err (buildGithubIdp L ask a cl n) = None
      then (buildGithubIdp L ask a cl n)
             \<lparr>idpBuilder := (idpBuilder (buildGithubIdp L ask a cl n))\<lparr>MappingMethod := Some m\<rparr>\<rparr>
      else buildGithubIdp L ask a cl n) \<and>
   (err (buildGithubIdp L ask a cl n) = None \<longrightarrow>
      MappingMethod (idpBuilder (buildGithubIdp L ask a cl n)) = Some (mappingMethod a))"
proof -
  have r: "resolve L ask (a\<lparr>mappingMethod := m\<rparr>) cl n = resolve L ask a cl n"
    by (simp add: resolve_def)
  show ?thesis
    by (simp add: buildGithubIdp_def r split: prod.splits sum.splits)
qed

theorem mapping_method_verbatim_witness:
  "err (buildGithubIdp plainLib aborts
     \<lparr>clientID = ''id'', clientSecret = ''secret'', githubOrganizations = ''acme'',
      githubTeams = '''', githubHostname = '''', mappingMethod = ''''\<rparr>
     demoCluster ''github-1'') = None \<and>
   MappingMethod (idpBuilder (buildGithubIdp plainLib aborts
     \<lparr>clientID = ''id'', clientSecret = ''secret'', githubOrganizations = ''acme'',
      githubTeams = '''', githubHostname = '''', mappingMethod = ''''\<rparr>
     demoCluster ''github-1'')) = Some '''' \<and>
   MappingMethod (idpBuilder (buildGithubIdp plainLib aborts
     \<lparr>clientID = ''id'', clientSecret = ''secret'', githubOrganizations = ''acme'',
      githubTeams = '''', githubHostname = '''', mappingMethod = ''not-a-method''\<rparr>
     demoCluster ''github-1'')) = Some ''not-a-method''"
proof -
  let ?a = "\<lparr>clientID = ''id'', clientSecret = ''secret'', githubOrganizations = ''acme'',
      githubTeams = '''', githubHostname = '''', mappingMethod = ''''\<rparr>"
  have ok: "err (buildGithubIdp plainLib aborts ?a demoCluster ''github-1'') = None"
    by (simp add: run_defs)
  from mapping_method_verbatim [of plainLib aborts "''not-a-method''" ?a demoCluster "''github-1''"]
    ok
  show ?thesis by simp
qed

end
